theory Spec2Isabelle
  imports Complex_Main "HOL-Library.AList"
begin

section \<open>Data model of \<open>coldatoms/particles.py\<close>\<close>

text \<open>
  Values of type float64 are modelled as real numbers: rounding, infinities and NaN are
  not represented. A division whose divisor is zero is a distinguished failure of the
  model.
\<close>

datatype error =
    DimensionMismatch
  | MissingMassError
  | IndexError
  | ValueError
  | ZeroDivisionError

text \<open>
  \<open>DimensionMismatch\<close> is the \<open>RuntimeError\<close> of \<open>set_particle_property\<close>,
  \<open>MissingMassError\<close> the \<open>RuntimeError\<close> of \<open>drift_kick\<close>; \<open>ValueError\<close> is what
  numpy raises when two shapes do not broadcast.
\<close>

subsection \<open>Rows of an array of shape \<open>(N, 3)\<close>\<close>

datatype vec3 = Vec3 real real real

fun vadd :: "vec3 \<Rightarrow> vec3 \<Rightarrow> vec3" where
  "vadd (Vec3 a b c) (Vec3 a' b' c') = Vec3 (a + a') (b + b') (c + c')"

fun vsub :: "vec3 \<Rightarrow> vec3 \<Rightarrow> vec3" where
  "vsub (Vec3 a b c) (Vec3 a' b' c') = Vec3 (a - a') (b - b') (c - c')"

fun smul :: "real \<Rightarrow> vec3 \<Rightarrow> vec3" where
  "smul k (Vec3 a b c) = Vec3 (k * a) (k * b) (k * c)"

fun cmul :: "vec3 \<Rightarrow> vec3 \<Rightarrow> vec3" where
  "cmul (Vec3 a b c) (Vec3 a' b' c') = Vec3 (a * a') (b * b') (c * c')"

fun dot :: "vec3 \<Rightarrow> vec3 \<Rightarrow> real" where
  "dot (Vec3 a b c) (Vec3 a' b' c') = a * a' + b * b' + c * c'"

definition vzero :: vec3 where
  "vzero = Vec3 0 0 0"

definition fdiv :: "real \<Rightarrow> real \<Rightarrow> error + real" where
  "fdiv a b = (if b = 0 then Inl ZeroDivisionError else Inr (a / b))"

subsection \<open>Arrays of any shape, and the store they live in\<close>

text \<open>
  A numpy array is its shape and its elements in row-major order; a Python float is the
  array of shape \<open>()\<close>. Property arrays are objects that a caller may also hold, so they
  live in a store and the ensemble holds their addresses. An address is an index of the
  store; \<open>np.copy\<close> allocates the next free one.
\<close>

record ndarray =
  shape :: "nat list"
  flat :: "real list"

type_synonym addr = nat

type_synonym heap = "ndarray list"

definition scalar :: "real \<Rightarrow> ndarray" where
  "scalar a = \<lparr>shape = [], flat = [a]\<rparr>"

text \<open>Row \<open>i\<close> of an array: \<open>a[i]\<close>.\<close>

definition row :: "ndarray \<Rightarrow> nat \<Rightarrow> ndarray" where
  "row a i =
     (let stride = prod_list (tl (shape a))
      in \<lparr>shape = tl (shape a), flat = take stride (drop (i * stride) (flat a))\<rparr>)"

text \<open>
  \<open>a.resize(new_shape)\<close> in place: the elements are kept in row-major order, cut or
  padded with zeros to the new size.
\<close>

definition ndarray_resize :: "nat list \<Rightarrow> ndarray \<Rightarrow> ndarray" where
  "ndarray_resize new_shape a =
     \<lparr>shape = new_shape,
      flat = take (prod_list new_shape)
               (flat a @ replicate (prod_list new_shape - length (flat a)) 0)\<rparr>"

text \<open>The same on an array of shape \<open>(N, 3)\<close> resized to \<open>(new_size, 3)\<close>.\<close>

definition rows_resize :: "nat \<Rightarrow> vec3 list \<Rightarrow> vec3 list" where
  "rows_resize new_size a = take new_size (a @ replicate (new_size - length a) vzero)"

text \<open>
  \<open>a += b\<close> on arrays of shapes \<open>(N, 3)\<close> and \<open>(M, 3)\<close>: \<open>b\<close> must broadcast to the
  shape of \<open>a\<close>.
\<close>

definition iadd_rows :: "vec3 list \<Rightarrow> vec3 list \<Rightarrow> error + vec3 list" where
  "iadd_rows a b =
     (if length b = length a then Inr (map2 vadd a b)
      else if length b = 1 then Inr (map (\<lambda>r. vadd r (b ! 0)) a)
      else Inl ValueError)"

section \<open>Ensemble\<close>

record Ensemble =
  ens_x :: "vec3 list"
  ens_v :: "vec3 list"
  ensemble_properties :: "string \<rightharpoonup> ndarray"
  particle_properties :: "(string \<times> addr) list"

text \<open>
  \<open>particle_properties\<close> is a dictionary in insertion order: its keys are distinct, and
  \<open>AList.update\<close> replaces the value of a key that is there and appends a new one.
\<close>

definition Ensemble_init :: "nat \<Rightarrow> Ensemble" where
  "Ensemble_init num_ptcls =
     \<lparr>ens_x = replicate num_ptcls vzero, ens_v = replicate num_ptcls vzero,
      ensemble_properties = Map.empty, particle_properties = []\<rparr>"

definition get_num_ptcls :: "Ensemble \<Rightarrow> nat" where
  "get_num_ptcls e = length (ens_x e)"

text \<open>
  A function that mutates returns the exception it raised, if any, and the state it
  left behind.
\<close>

definition set_particle_property ::
  "string \<Rightarrow> addr \<Rightarrow> heap \<times> Ensemble \<Rightarrow> error option \<times> heap \<times> Ensemble"
where
  "set_particle_property key prop = (\<lambda>(h, e).
     case shape (h ! prop) of
       [] \<Rightarrow> (Some IndexError, h, e)
     | n # _ \<Rightarrow>
         if n \<noteq> get_num_ptcls e then (Some DimensionMismatch, h, e)
         else (None, h @ [h ! prop],
               e\<lparr>particle_properties :=
                    AList.update key (length h) (particle_properties e)\<rparr>))"

text \<open>
  The loop of \<open>resize\<close> over the property arrays: \<open>shape = [a.shape]\<close>,
  \<open>shape[0] = new_size\<close>, \<open>a.resize(shape)\<close>, so the new shape is \<open>[new_size]\<close>.
\<close>

fun resize_props :: "nat \<Rightarrow> (string \<times> addr) list \<Rightarrow> heap \<Rightarrow> heap" where
  "resize_props new_size [] h = h"
| "resize_props new_size ((particle_prop, a) # ps) h =
     resize_props new_size ps (h[a := ndarray_resize [new_size] (h ! a)])"

definition resize :: "nat \<Rightarrow> heap \<times> Ensemble \<Rightarrow> heap \<times> Ensemble" where
  "resize new_size = (\<lambda>(h, e).
     (resize_props new_size (particle_properties e) h,
      e\<lparr>ens_x := rows_resize new_size (ens_x e),
        ens_v := rows_resize new_size (ens_v e)\<rparr>))"

section \<open>Sources and the injection driver\<close>

text \<open>
  A source is an object with a state of its own (a stochastic source draws its counts);
  \<open>'s\<close> is the state of all the sources. Every call the driver makes is written to a
  trace.
\<close>

record 's Source =
  num_ptcls_produced :: "real \<Rightarrow> 's \<Rightarrow> nat \<times> 's"
  src_produce_ptcls :: "real \<Rightarrow> nat \<Rightarrow> nat \<Rightarrow> heap \<times> Ensemble \<Rightarrow> 's \<Rightarrow> (heap \<times> Ensemble) \<times> 's"

definition Source_base :: "'s Source" where
  "Source_base =
     \<lparr>num_ptcls_produced = (\<lambda>dt s. (0, s)),
      src_produce_ptcls = (\<lambda>dt start end he s. (he, s))\<rparr>"

datatype event =
    CallNumPtclsProduced nat real
  | CallResize nat
  | CallProducePtcls nat real nat nat

text \<open>
  \<open>CallNumPtclsProduced i dt\<close> and \<open>CallProducePtcls i dt start end\<close> are calls to the
  source at index \<open>i\<close>; \<open>CallResize n\<close> is \<open>ensemble.resize(n)\<close>.
\<close>

fun count_loop ::
  "real \<Rightarrow> 's Source list \<Rightarrow> nat \<Rightarrow> nat list \<Rightarrow> nat \<Rightarrow> event list \<Rightarrow> 's
     \<Rightarrow> nat list \<times> nat \<times> event list \<times> 's"
where
  "count_loop dt [] i num_new_ptcls tot_new_ptcls tr s =
     (num_new_ptcls, tot_new_ptcls, tr, s)"
| "count_loop dt (src # srcs) i num_new_ptcls tot_new_ptcls tr s =
     (let (n, s') = num_ptcls_produced src dt s;
          num_new_ptcls' = num_new_ptcls @ [n]
      in count_loop dt srcs (Suc i) num_new_ptcls' (tot_new_ptcls + last num_new_ptcls')
           (tr @ [CallNumPtclsProduced i dt]) s')"

fun insert_loop ::
  "real \<Rightarrow> (nat \<times> 's Source) list \<Rightarrow> nat list \<Rightarrow> nat \<Rightarrow> heap \<times> Ensemble \<Rightarrow> event list \<Rightarrow> 's
     \<Rightarrow> (heap \<times> Ensemble) \<times> event list \<times> 's"
where
  "insert_loop dt [] num_new_ptcls start he tr s = (he, tr, s)"
| "insert_loop dt ((i, src) # rest) num_new_ptcls start he tr s =
     (let (he', s') = src_produce_ptcls src dt start (start + num_new_ptcls ! i) he s
      in insert_loop dt rest num_new_ptcls (start + num_new_ptcls ! i) he'
           (tr @ [CallProducePtcls i dt start (start + num_new_ptcls ! i)]) s')"

definition produce_ptcls ::
  "real \<Rightarrow> 's Source list \<Rightarrow> heap \<times> Ensemble \<Rightarrow> 's \<Rightarrow> (heap \<times> Ensemble) \<times> event list \<times> 's"
where
  "produce_ptcls dt sources he s =
     (let (num_new_ptcls, tot_new_ptcls, tr, s1) = count_loop dt sources 0 [] 0 [] s;
          start = get_num_ptcls (snd he);
          he1 = resize (get_num_ptcls (snd he) + tot_new_ptcls) he
      in insert_loop dt (enumerate 0 sources) num_new_ptcls start he1
           (tr @ [CallResize (get_num_ptcls (snd he) + tot_new_ptcls)]) s1)"

text \<open>
  The counts the sources return when each is asked once, in list order, from state \<open>s\<close>.
\<close>

fun counts_once :: "real \<Rightarrow> 's Source list \<Rightarrow> 's \<Rightarrow> nat list" where
  "counts_once dt [] s = []"
| "counts_once dt (src # srcs) s =
     (let (n, s') = num_ptcls_produced src dt s in n # counts_once dt srcs s')"

text \<open>
  A source for examples: it answers \<open>c\<close> when it is the \<open>k\<close>-th source asked since the
  state was 0 and 100 on any other query, and it writes \<open>mark\<close> into the rows
  \<open>start..end-1\<close> of the positions.
\<close>

definition marking_source :: "nat \<Rightarrow> nat \<Rightarrow> vec3 \<Rightarrow> nat Source" where
  "marking_source k c mark =
     \<lparr>num_ptcls_produced = (\<lambda>dt s. (if s = k then c else 100, Suc s)),
      src_produce_ptcls = (\<lambda>dt start end he s.
        ((fst he, (snd he)\<lparr>ens_x := map (\<lambda>i. if start \<le> i \<and> i < end then mark else ens_x (snd he) ! i)
                                    [0..<length (ens_x (snd he))]\<rparr>), s))\<rparr>"

section \<open>Sinks\<close>

text \<open>\<open>Sink.find_absorption_time\<close>: \<open>np.full(x.shape[0], 2.0 * dt)\<close>.\<close>

definition find_absorption_time :: "vec3 list \<Rightarrow> vec3 list \<Rightarrow> real \<Rightarrow> real list" where
  "find_absorption_time x v dt = replicate (length x) (2 * dt)"

record SinkPlane =
  point :: vec3
  normal :: vec3

text \<open>
  The loop of \<open>SinkPlane.find_absorption_time\<close> over \<open>range(x.shape[0])\<close>; reading
  \<open>v[i]\<close> past the end of \<open>v\<close> raises.
\<close>

fun taus_loop ::
  "SinkPlane \<Rightarrow> vec3 list \<Rightarrow> vec3 list \<Rightarrow> real \<Rightarrow> nat list \<Rightarrow> real list \<Rightarrow> error + real list"
where
  "taus_loop sp x v dt [] taus = Inr taus"
| "taus_loop sp x v dt (i # is) taus =
     (if length v \<le> i then Inl IndexError
      else
        let normal_velocity = dot (normal sp) (v ! i) in
        if normal_velocity = 0 then taus_loop sp x v dt is (taus[i := 2 * dt])
        else
          (case fdiv (dot (normal sp) (vsub (point sp) (x ! i))) normal_velocity of
             Inl e \<Rightarrow> Inl e
           | Inr q \<Rightarrow> taus_loop sp x v dt is (taus[i := q])))"

definition plane_find_absorption_time ::
  "SinkPlane \<Rightarrow> vec3 list \<Rightarrow> vec3 list \<Rightarrow> real \<Rightarrow> error + real list"
where
  "plane_find_absorption_time sp x v dt =
     taus_loop sp x v dt [0..<length x] (replicate (length x) 0)"

text \<open>The absorption time of one particle as the specification writes it.\<close>

definition tau :: "SinkPlane \<Rightarrow> real \<Rightarrow> vec3 \<Rightarrow> vec3 \<Rightarrow> real" where
  "tau sp dt xi vi =
     (if dot (normal sp) vi = 0 then 2 * dt
      else dot (normal sp) (vsub (point sp) xi) / dot (normal sp) vi)"

text \<open>
  The free flight \<open>xi + t * vi\<close> meets the plane at a time in \<open>[0, dt)\<close>.
\<close>

definition crosses_within :: "SinkPlane \<Rightarrow> vec3 \<Rightarrow> vec3 \<Rightarrow> real \<Rightarrow> bool" where
  "crosses_within sp xi vi dt \<longleftrightarrow>
     (\<exists>t. 0 \<le> t \<and> t < dt \<and> dot (normal sp) (vsub (vadd xi (smul t vi)) (point sp)) = 0)"

section \<open>Integrator\<close>

type_synonym force = "heap \<times> Ensemble \<Rightarrow> vec3 list"

text \<open>\<open>for force in forces: f += force(ensemble)\<close>.\<close>

fun sum_forces :: "force list \<Rightarrow> heap \<times> Ensemble \<Rightarrow> vec3 list \<Rightarrow> error + vec3 list" where
  "sum_forces [] he f = Inr f"
| "sum_forces (force # forces) he f =
     (case iadd_rows f (force he) of
        Inl err \<Rightarrow> Inl err
      | Inr f' \<Rightarrow> sum_forces forces he f')"

text \<open>The \<open>if\<close>/\<open>elif\<close>/\<open>else\<close> that finds the mass.\<close>

definition lookup_mass :: "heap \<times> Ensemble \<Rightarrow> error + ndarray" where
  "lookup_mass = (\<lambda>(h, e).
     case ensemble_properties e ''mass'' of
       Some m \<Rightarrow> Inr m
     | None \<Rightarrow>
         (case map_of (particle_properties e) ''mass'' of
            Some a \<Rightarrow> Inr (h ! a)
          | None \<Rightarrow> Inl MissingMassError))"

text \<open>
  \<open>(dt / m) * f\<close> as an array that \<open>ensemble.v += ...\<close> accepts, where \<open>f\<close> has the shape
  \<open>(N, 3)\<close> of \<open>ensemble.v\<close> and \<open>m\<close> any shape. numpy aligns the shape of \<open>m\<close> with
  \<open>(N, 3)\<close> from the right; an axis of \<open>m\<close> of length 1 is repeated; a result of more
  than two axes, or of more than \<open>N\<close> rows, cannot be added to \<open>ensemble.v\<close> in place.
\<close>

definition kick_term :: "real \<Rightarrow> ndarray \<Rightarrow> vec3 list \<Rightarrow> error + vec3 list" where
  "kick_term dt m f =
     (if 0 \<in> set (flat m) then Inl ZeroDivisionError
      else
        (case shape m of
           [] \<Rightarrow> Inr (map (smul (dt / flat m ! 0)) f)
         | [k] \<Rightarrow>
             if k = 1 then Inr (map (smul (dt / flat m ! 0)) f)
             else if k = 3 then
               Inr (map (cmul (Vec3 (dt / flat m ! 0) (dt / flat m ! 1) (dt / flat m ! 2))) f)
             else Inl ValueError
         | [r, c] \<Rightarrow>
             if (r = 1 \<or> r = length f) \<and> (c = 1 \<or> c = 3) then
               Inr (map (\<lambda>i.
                      let q = (\<lambda>j. dt / flat m !
                                 ((if r = 1 then 0 else i) * c + (if c = 1 then 0 else j)))
                      in cmul (Vec3 (q 0) (q 1) (q 2)) (f ! i)) [0..<length f])
             else Inl ValueError
         | _ \<Rightarrow> Inl ValueError))"

definition drift_kick :: "real \<Rightarrow> force list \<Rightarrow> heap \<times> Ensemble \<Rightarrow> error option \<times> Ensemble" where
  "drift_kick dt forces = (\<lambda>(h, e).
     if length forces = 0 then
       (case iadd_rows (ens_x e) (map (smul dt) (ens_v e)) of
          Inl err \<Rightarrow> (Some err, e)
        | Inr x' \<Rightarrow> (None, e\<lparr>ens_x := x'\<rparr>))
     else
       (case iadd_rows (ens_x e) (map (smul (0.5 * dt)) (ens_v e)) of
          Inl err \<Rightarrow> (Some err, e)
        | Inr x1 \<Rightarrow>
            let e1 = e\<lparr>ens_x := x1\<rparr> in
            (case sum_forces forces (h, e1) (replicate (length (ens_v e1)) vzero) of
               Inl err \<Rightarrow> (Some err, e1)
             | Inr f \<Rightarrow>
                 (case lookup_mass (h, e1) of
                    Inl err \<Rightarrow> (Some err, e1)
                  | Inr m \<Rightarrow>
                      (case kick_term dt m f of
                         Inl err \<Rightarrow> (Some err, e1)
                       | Inr w \<Rightarrow>
                           (case iadd_rows (ens_v e1) w of
                              Inl err \<Rightarrow> (Some err, e1)
                            | Inr v1 \<Rightarrow>
                                let e2 = e1\<lparr>ens_v := v1\<rparr> in
                                (case iadd_rows (ens_x e2) (map (smul (0.5 * dt)) (ens_v e2)) of
                                   Inl err \<Rightarrow> (Some err, e2)
                                 | Inr x2 \<Rightarrow> (None, e2\<lparr>ens_x := x2\<rparr>))))))))"

text \<open>
  The sum of the force arrays, each evaluated on the same state, as an array of \<open>n\<close> rows.
\<close>

definition total_force :: "force list \<Rightarrow> heap \<times> Ensemble \<Rightarrow> nat \<Rightarrow> vec3 list" where
  "total_force forces he n =
     foldl (map2 vadd) (replicate n vzero) (map (\<lambda>force. force he) forces)"

text \<open>
  The kick and the second half drift as the specification writes them, for a mass \<open>m\<close>
  and a total force \<open>f\<close> that are given: \<open>velocities += (dt / m) * f\<close>, then
  \<open>positions += 0.5 * dt * velocities\<close>.
\<close>

definition kick_and_drift ::
  "real \<Rightarrow> ndarray \<Rightarrow> vec3 list \<Rightarrow> Ensemble \<Rightarrow> error option \<times> Ensemble"
where
  "kick_and_drift dt m f e1 =
     (case kick_term dt m f of
        Inl err \<Rightarrow> (Some err, e1)
      | Inr w \<Rightarrow>
          (None,
           e1\<lparr>ens_x := map2 (\<lambda>xi vi. vadd xi (smul (0.5 * dt) vi)) (ens_x e1)
                        (map2 vadd (ens_v e1) w),
              ens_v := map2 vadd (ens_v e1) w\<rparr>))"

section \<open>Properties of sinks\<close>

lemma taus_loop_inv:
  assumes "k \<le> n" "length taus = n" "length x = n" "n \<le> length v"
  shows "taus_loop sp x v dt [k..<n] taus =
           Inr (take k taus @ map (\<lambda>i. tau sp dt (x ! i) (v ! i)) [k..<n])"
  using assms
proof (induction "n - k" arbitrary: k taus)
  case 0
  then show ?case by simp
next
  case (Suc d)
  then have kn: "k < n" by arith
  then have split: "[k..<n] = k # [Suc k..<n]" by (simp add: upt_conv_Cons)
  let ?t = "tau sp dt (x ! k) (v ! k)"
  have step: "taus_loop sp x v dt [k..<n] taus = taus_loop sp x v dt [Suc k..<n] (taus[k := ?t])"
    using kn Suc.prems by (simp add: split tau_def fdiv_def Let_def)
  have ih: "taus_loop sp x v dt [Suc k..<n] (taus[k := ?t]) =
      Inr (take (Suc k) (taus[k := ?t]) @ map (\<lambda>i. tau sp dt (x ! i) (v ! i)) [Suc k..<n])"
    using Suc.hyps(1)[of "Suc k" "taus[k := ?t]"] Suc.hyps(2) Suc.prems kn by simp
  have "take (Suc k) (taus[k := ?t]) = take k taus @ [?t]"
    using kn Suc.prems by (simp add: take_Suc_conv_app_nth)
  then show ?case using step ih by (simp add: split)
qed

text \<open>
  Claim C2. For particles \<open>x\<close>, \<open>v\<close> of equal number, \<open>SinkPlane.find_absorption_time\<close>
  raises nothing, in particular no division by zero, and returns for every particle \<open>i\<close>
  the time \<open>normal \<cdot> (point - x\<^sub>i) / (normal \<cdot> v\<^sub>i)\<close> when \<open>normal \<cdot> v\<^sub>i\<close> is not zero and
  \<open>2 * dt\<close> when it is. With point and normal \<open>(1, 0, 0)\<close>, a particle at the origin with
  velocity \<open>(1, 0, 0)\<close> and \<open>dt = 10\<close> gets the time 1, one with velocity \<open>(0, 1, 0)\<close>
  gets 20.
\<close>

theorem plane_absorption_time_formula:
  assumes "length v = length x"
  shows "(\<exists>taus. plane_find_absorption_time sp x v dt = Inr taus \<and> length taus = length x \<and>
           (\<forall>i<length x. taus ! i =
              (if dot (normal sp) (v ! i) = 0 then 2 * dt
               else dot (normal sp) (vsub (point sp) (x ! i)) / dot (normal sp) (v ! i)))) \<and>
         plane_find_absorption_time \<lparr>point = Vec3 1 0 0, normal = Vec3 1 0 0\<rparr>
           [Vec3 0 0 0] [Vec3 1 0 0] 10 = Inr [1] \<and>
         plane_find_absorption_time \<lparr>point = Vec3 1 0 0, normal = Vec3 1 0 0\<rparr>
           [Vec3 0 0 0] [Vec3 0 1 0] 10 = Inr [20]"
proof -
  have "plane_find_absorption_time sp x v dt =
          Inr (map (\<lambda>i. tau sp dt (x ! i) (v ! i)) [0..<length x])"
    unfolding plane_find_absorption_time_def
    using taus_loop_inv[of 0 "length x" "replicate (length x) 0" x v sp dt] assms by simp
  then have general:
    "\<exists>taus. plane_find_absorption_time sp x v dt = Inr taus \<and> length taus = length x \<and>
           (\<forall>i<length x. taus ! i =
              (if dot (normal sp) (v ! i) = 0 then 2 * dt
               else dot (normal sp) (vsub (point sp) (x ! i)) / dot (normal sp) (v ! i)))"
    by (simp add: tau_def)
  have moving: "plane_find_absorption_time \<lparr>point = Vec3 1 0 0, normal = Vec3 1 0 0\<rparr>
           [Vec3 0 0 0] [Vec3 1 0 0] 10 = Inr [1]"
    by (simp add: plane_find_absorption_time_def fdiv_def)
  have parallel: "plane_find_absorption_time \<lparr>point = Vec3 1 0 0, normal = Vec3 1 0 0\<rparr>
           [Vec3 0 0 0] [Vec3 0 1 0] 10 = Inr [20]"
    by (simp add: plane_find_absorption_time_def fdiv_def)
  from general moving parallel show ?thesis by blast
qed

theorem plane_absorption_time_formula_witness:
  "length [Vec3 1 0 0, Vec3 0 1 0] = length [Vec3 0 0 0, Vec3 0 0 0] \<and>
   (\<exists>taus. plane_find_absorption_time \<lparr>point = Vec3 1 0 0, normal = Vec3 1 0 0\<rparr>
        [Vec3 0 0 0, Vec3 0 0 0] [Vec3 1 0 0, Vec3 0 1 0] 10 = Inr taus \<and>
        taus ! 0 = 1 \<and> taus ! 1 = 20)"
  using plane_absorption_time_formula[of "[Vec3 1 0 0, Vec3 0 1 0]" "[Vec3 0 0 0, Vec3 0 0 0]"
      "\<lparr>point = Vec3 1 0 0, normal = Vec3 1 0 0\<rparr>" 10]
  by (auto simp: less_Suc_eq)

text \<open>
  Claim C6, at the input where the code departs from it. The plane is \<open>x = 1\<close>; the
  particle starts at \<open>(2, 0, 0)\<close> and moves away with velocity \<open>(1, 0, 0)\<close>. Its flight
  does not meet the plane in \<open>[0, 10)\<close>, and the time returned is \<open>-1\<close>, which is not
  greater than \<open>dt = 10\<close>.
\<close>

theorem plane_absorption_receding:
  "plane_find_absorption_time \<lparr>point = Vec3 1 0 0, normal = Vec3 1 0 0\<rparr>
       [Vec3 2 0 0] [Vec3 1 0 0] 10 = Inr [- 1] \<and>
   \<not> crosses_within \<lparr>point = Vec3 1 0 0, normal = Vec3 1 0 0\<rparr> (Vec3 2 0 0) (Vec3 1 0 0) 10 \<and>
   \<not> (10 < (- 1 :: real))"
  by (simp add: plane_find_absorption_time_def fdiv_def crosses_within_def)

text \<open>
  Claim C10. \<open>Sink.find_absorption_time\<close> returns one entry per particle, every entry
  is \<open>2 * dt\<close>, and for \<open>dt > 0\<close> every entry is greater than \<open>dt\<close>, so none lies in
  \<open>[0, dt)\<close>.
\<close>

theorem default_sink_time:
  "length (find_absorption_time x v dt) = length x \<and>
   (\<forall>t \<in> set (find_absorption_time x v dt). t = 2 * dt) \<and>
   (0 < dt \<longrightarrow> (\<forall>t \<in> set (find_absorption_time x v dt). dt < t \<and> \<not> (0 \<le> t \<and> t < dt)))"
  by (auto simp: find_absorption_time_def)

theorem default_sink_time_witness:
  "(0::real) < 10 \<and>
   find_absorption_time [Vec3 0 0 0, Vec3 1 2 3] [Vec3 1 0 0, Vec3 0 0 0] 10 = [20, 20] \<and>
   (10::real) < 20 \<and> \<not> ((20::real) < 10)"
  using default_sink_time[of "[Vec3 0 0 0, Vec3 1 2 3]" "[Vec3 1 0 0, Vec3 0 0 0]" 10]
  by (simp add: find_absorption_time_def)

section \<open>Properties of the ensemble\<close>

lemma rows_resize_length: "length (rows_resize n a) = n"
  by (simp add: rows_resize_def)

lemma rows_resize_keep: "i < length a \<Longrightarrow> i < n \<Longrightarrow> rows_resize n a ! i = a ! i"
  by (simp add: rows_resize_def nth_append)

lemma rows_resize_zero: "length a \<le> i \<Longrightarrow> i < n \<Longrightarrow> rows_resize n a ! i = vzero"
  by (simp add: rows_resize_def nth_append)

lemma resize_x: "ens_x (snd (resize n (h, e))) = rows_resize n (ens_x e)"
  by (simp add: resize_def)

lemma resize_v: "ens_v (snd (resize n (h, e))) = rows_resize n (ens_v e)"
  by (simp add: resize_def)

text \<open>
  Claim C7. \<open>resize(new_size)\<close> leaves positions and velocities with \<open>new_size\<close> rows,
  keeps their first \<open>min(N, new_size)\<close> rows and fills the added rows with zeros. On an
  ensemble of \<open>N\<close> particles, \<open>resize(N)\<close>, \<open>resize(M)\<close>, \<open>resize(N)\<close> gives back the
  first \<open>min(N, M)\<close> rows of positions and velocities.
\<close>

theorem resize_rows:
  "length (ens_x (snd (resize new_size (h, e)))) = new_size \<and>
   length (ens_v (snd (resize new_size (h, e)))) = new_size \<and>
   (\<forall>i < min (length (ens_x e)) new_size. ens_x (snd (resize new_size (h, e))) ! i = ens_x e ! i) \<and>
   (\<forall>i < min (length (ens_v e)) new_size. ens_v (snd (resize new_size (h, e))) ! i = ens_v e ! i) \<and>
   (\<forall>i. length (ens_x e) \<le> i \<and> i < new_size \<longrightarrow> ens_x (snd (resize new_size (h, e))) ! i = vzero) \<and>
   (\<forall>i. length (ens_v e) \<le> i \<and> i < new_size \<longrightarrow> ens_v (snd (resize new_size (h, e))) ! i = vzero) \<and>
   (length (ens_v e) = get_num_ptcls e \<longrightarrow>
      (\<forall>i < min (get_num_ptcls e) M.
         ens_x (snd (resize (get_num_ptcls e) (resize M (resize (get_num_ptcls e) (h, e))))) ! i
           = ens_x e ! i \<and>
         ens_v (snd (resize (get_num_ptcls e) (resize M (resize (get_num_ptcls e) (h, e))))) ! i
           = ens_v e ! i))"
proof -
  let ?N = "get_num_ptcls e"
  have rt: "rows_resize (length a) (rows_resize M (rows_resize (length a) a)) ! i = a ! i"
    if "i < min (length a) M" for a :: "vec3 list" and i
    using that by (simp add: rows_resize_keep rows_resize_length)
  have x3: "ens_x (snd (resize ?N (resize M (resize ?N (h, e))))) =
        rows_resize ?N (rows_resize M (rows_resize ?N (ens_x e)))"
    by (simp add: resize_def split_def)
  have v3: "ens_v (snd (resize ?N (resize M (resize ?N (h, e))))) =
        rows_resize ?N (rows_resize M (rows_resize ?N (ens_v e)))"
    by (simp add: resize_def split_def)
  have round: "length (ens_v e) = ?N \<longrightarrow>
      (\<forall>i < min ?N M.
         ens_x (snd (resize ?N (resize M (resize ?N (h, e))))) ! i = ens_x e ! i \<and>
         ens_v (snd (resize ?N (resize M (resize ?N (h, e))))) ! i = ens_v e ! i)"
    unfolding x3 v3 using rt[of _ "ens_x e"] rt[of _ "ens_v e"]
    by (metis get_num_ptcls_def)
  show ?thesis
    using round
    by (simp add: resize_x resize_v rows_resize_length rows_resize_keep rows_resize_zero)
qed

theorem resize_rows_witness:
  "(1::nat) < min (length [Vec3 1 2 3, Vec3 4 5 6]) 3 \<and>
   ens_x (snd (resize 3 ([], (Ensemble_init 2)\<lparr>ens_x := [Vec3 1 2 3, Vec3 4 5 6]\<rparr>))) ! 1
     = Vec3 4 5 6 \<and>
   length [Vec3 1 2 3, Vec3 4 5 6] \<le> (2::nat) \<and> (2::nat) < 3 \<and>
   ens_x (snd (resize 3 ([], (Ensemble_init 2)\<lparr>ens_x := [Vec3 1 2 3, Vec3 4 5 6]\<rparr>))) ! 2 = vzero \<and>
   length (ens_v ((Ensemble_init 2)\<lparr>ens_x := [Vec3 1 2 3, Vec3 4 5 6]\<rparr>)) =
     get_num_ptcls ((Ensemble_init 2)\<lparr>ens_x := [Vec3 1 2 3, Vec3 4 5 6]\<rparr>) \<and>
   (0::nat) < min (get_num_ptcls ((Ensemble_init 2)\<lparr>ens_x := [Vec3 1 2 3, Vec3 4 5 6]\<rparr>)) 1 \<and>
   ens_x (snd (resize 2 (resize 1 (resize 2
      ([], (Ensemble_init 2)\<lparr>ens_x := [Vec3 1 2 3, Vec3 4 5 6]\<rparr>))))) ! 0 = Vec3 1 2 3"
  using resize_rows[of 3 "[]" "(Ensemble_init 2)\<lparr>ens_x := [Vec3 1 2 3, Vec3 4 5 6]\<rparr>" 1]
  by (simp add: Ensemble_init_def get_num_ptcls_def resize_def rows_resize_def vzero_def
      eval_nat_numeral less_Suc_eq)

text \<open>
  What \<open>resize\<close> does to a property array: whatever its shape was, it becomes the
  one-dimensional array of its first \<open>new_size\<close> elements, padded with zeros.
\<close>

lemma ndarray_resize_idem:
  "ndarray_resize [n] (ndarray_resize [n] a) = ndarray_resize [n] a"
  by (simp add: ndarray_resize_def)

lemma resize_props_nth:
  "a < length h \<Longrightarrow>
   resize_props n ps h ! a = (if a \<in> snd ` set ps then ndarray_resize [n] (h ! a) else h ! a)"
proof (induction n ps h rule: resize_props.induct)
  case (1 n h)
  then show ?case by simp
next
  case (2 n k b ps h)
  then show ?case
    by (cases "a = b") (auto simp: ndarray_resize_idem nth_list_update)
qed

lemma resize_property_shape:
  assumes "map_of (particle_properties e) key = Some a" "a < length h"
  shows "fst (resize n (h, e)) ! a = ndarray_resize [n] (h ! a)"
    and "shape (fst (resize n (h, e)) ! a) = [n]"
proof -
  have "a \<in> snd ` set (particle_properties e)"
    using assms(1) by (metis map_of_SomeD image_eqI snd_conv)
  then show "fst (resize n (h, e)) ! a = ndarray_resize [n] (h ! a)"
    using assms(2) by (simp add: resize_def resize_props_nth)
  then show "shape (fst (resize n (h, e)) ! a) = [n]"
    by (simp add: ndarray_resize_def)
qed

text \<open>
  Claim C5, at the input where the code departs from it. An ensemble of one particle
  gets the property \<open>p\<close> of shape \<open>(1, 2)\<close>, with the single row \<open>[1, 2]\<close>, and is resized
  to two particles. The stored array becomes \<open>[1, 2]\<close> of shape \<open>(2)\<close>: its row 0 was the
  array \<open>[1, 2]\<close> and is now the number 1.
\<close>

theorem resize_property_rows_lost:
  "set_particle_property ''p'' 0 ([\<lparr>shape = [1, 2], flat = [1, 2]\<rparr>], Ensemble_init 1) =
     (None, [\<lparr>shape = [1, 2], flat = [1, 2]\<rparr>, \<lparr>shape = [1, 2], flat = [1, 2]\<rparr>],
      (Ensemble_init 1)\<lparr>particle_properties := [(''p'', 1)]\<rparr>) \<and>
   fst (resize 2 ([\<lparr>shape = [1, 2], flat = [1, 2]\<rparr>, \<lparr>shape = [1, 2], flat = [1, 2]\<rparr>],
      (Ensemble_init 1)\<lparr>particle_properties := [(''p'', 1)]\<rparr>)) ! 1 = \<lparr>shape = [2], flat = [1, 2]\<rparr> \<and>
   row \<lparr>shape = [1, 2], flat = [1, 2]\<rparr> 0 = \<lparr>shape = [2], flat = [1, 2]\<rparr> \<and>
   row \<lparr>shape = [2], flat = [1, 2]\<rparr> 0 = \<lparr>shape = [], flat = [1]\<rparr>"
  by (simp add: set_particle_property_def Ensemble_init_def get_num_ptcls_def resize_def
      ndarray_resize_def row_def)

text \<open>
  Claim C9. For an array \<open>prop\<close> that has a leading axis, \<open>set_particle_property\<close> raises
  \<open>DimensionMismatch\<close> exactly when the length of that axis differs from the number of
  particles, and then changes nothing. Otherwise it raises nothing and stores under
  \<open>key\<close>, in place of any earlier value, a new array equal to \<open>prop\<close>; the other keys and
  the arrays already in the store are as before, and no later assignment to the
  caller's array changes the stored one.
\<close>

theorem set_particle_property_copy:
  assumes "prop < length h" "shape (h ! prop) \<noteq> []"
  shows "(fst (set_particle_property key prop (h, e)) = Some DimensionMismatch
            \<longleftrightarrow> hd (shape (h ! prop)) \<noteq> get_num_ptcls e) \<and>
         (hd (shape (h ! prop)) \<noteq> get_num_ptcls e \<longrightarrow>
            set_particle_property key prop (h, e) = (Some DimensionMismatch, h, e)) \<and>
         (hd (shape (h ! prop)) = get_num_ptcls e \<longrightarrow>
            (\<exists>h' e'. set_particle_property key prop (h, e) = (None, h', e') \<and>
               map_of (particle_properties e') = (map_of (particle_properties e))(key \<mapsto> length h) \<and>
               length h \<noteq> prop \<and>
               h' ! length h = h ! prop \<and>
               (\<forall>a < length h. h' ! a = h ! a) \<and>
               (\<forall>arr. (h'[prop := arr]) ! length h = h ! prop)))"
proof -
  obtain n ns where sh: "shape (h ! prop) = n # ns"
    using assms(2) by (cases "shape (h ! prop)") auto
  show ?thesis
    using assms(1) by (simp add: set_particle_property_def sh update_conv' nth_append)
qed

theorem set_particle_property_copy_witness:
  "(0::nat) < length [\<lparr>shape = [2], flat = [5, 5]\<rparr>] \<and>
   shape ([\<lparr>shape = [2], flat = [5, 5]\<rparr>] ! 0) \<noteq> [] \<and>
   hd (shape ([\<lparr>shape = [2], flat = [5, 5]\<rparr>] ! 0)) = get_num_ptcls (Ensemble_init 2) \<and>
   hd (shape ([\<lparr>shape = [2], flat = [5, 5]\<rparr>] ! 0)) \<noteq> get_num_ptcls (Ensemble_init 3) \<and>
   set_particle_property ''mass'' 0 ([\<lparr>shape = [2], flat = [5, 5]\<rparr>], Ensemble_init 3) =
     (Some DimensionMismatch, [\<lparr>shape = [2], flat = [5, 5]\<rparr>], Ensemble_init 3) \<and>
   (\<exists>h' e'. set_particle_property ''mass'' 0 ([\<lparr>shape = [2], flat = [5, 5]\<rparr>], Ensemble_init 2) =
       (None, h', e') \<and>
      map_of (particle_properties e') ''mass'' = Some 1 \<and>
      (h'[0 := \<lparr>shape = [2], flat = [7, 7]\<rparr>]) ! 1 = \<lparr>shape = [2], flat = [5, 5]\<rparr>)"
  using set_particle_property_copy[of 0 "[\<lparr>shape = [2], flat = [5, 5]\<rparr>]" "''mass''"
      "Ensemble_init 2"]
    set_particle_property_copy[of 0 "[\<lparr>shape = [2], flat = [5, 5]\<rparr>]" "''mass''"
      "Ensemble_init 3"]
  by (simp add: Ensemble_init_def get_num_ptcls_def set_particle_property_def)

section \<open>Properties of the integrator\<close>

lemma iadd_rows_same: "length b = length a \<Longrightarrow> iadd_rows a b = Inr (map2 vadd a b)"
  by (simp add: iadd_rows_def)

lemma map2_vadd_smul:
  "map2 vadd a (map (smul k) b) = map2 (\<lambda>xi vi. vadd xi (smul k vi)) a b"
  by (simp add: zip_map2 case_prod_unfold)

lemma map2_vadd_smul_zip:
  "map2 vadd a (map (smul k \<circ> (\<lambda>(x, y). vadd x y)) (zip b c)) =
   map2 (\<lambda>xi vi. vadd xi (smul k vi)) a (map2 vadd b c)"
  by (simp add: map2_vadd_smul[symmetric])

lemma vadd_vzero: "vadd vzero F = F"
  by (cases F) (simp add: vzero_def)

lemma map2_vadd_replicate:
  "map2 vadd (replicate n vzero) (replicate n F) = replicate n F"
  by (simp add: zip_replicate vadd_vzero)

lemma sum_forces_total:
  assumes "\<forall>force \<in> set forces. length (force he) = length f"
  shows "sum_forces forces he f = Inr (foldl (map2 vadd) f (map (\<lambda>force. force he) forces))"
  using assms
proof (induction forces arbitrary: f)
  case Nil
  then show ?case by simp
next
  case (Cons force forces)
  then show ?case by (simp add: iadd_rows_same)
qed

lemma foldl_map2_vadd_length:
  "\<forall>g \<in> set gs. length g = length f \<Longrightarrow> length (foldl (map2 vadd) f gs) = length f"
  by (induction gs arbitrary: f) simp_all

lemma kick_term_length: "kick_term dt m f = Inr w \<Longrightarrow> length w = length f"
  by (auto simp: kick_term_def Let_def split: if_splits list.splits)

lemma split_step_algebra:
  assumes "m \<noteq> 0"
  shows "vadd (vadd xi (smul (0.5 * dt) vi)) (smul (0.5 * dt) (vadd vi (smul (dt / m) F))) =
         vadd (vadd xi (smul dt vi)) (smul (0.5 * (dt\<^sup>2 / m)) F)"
  using assms by (cases xi; cases vi; cases F) (simp add: field_simps power2_eq_square)

text \<open>
  Claim C8. On an ensemble whose positions and velocities have the same number of rows,
  \<open>drift_kick(dt, ensemble, [])\<close> raises nothing, sets the positions to
  \<open>positions + dt * velocities\<close> and leaves the velocities and both property maps as
  they were.
\<close>

theorem drift_kick_no_forces:
  assumes "length (ens_v e) = length (ens_x e)"
  shows "drift_kick dt [] (h, e) =
           (None, e\<lparr>ens_x := map2 (\<lambda>xi vi. vadd xi (smul dt vi)) (ens_x e) (ens_v e)\<rparr>) \<and>
         ens_v (snd (drift_kick dt [] (h, e))) = ens_v e \<and>
         ensemble_properties (snd (drift_kick dt [] (h, e))) = ensemble_properties e \<and>
         particle_properties (snd (drift_kick dt [] (h, e))) = particle_properties e"
  using assms by (simp add: drift_kick_def iadd_rows_same map2_vadd_smul)

theorem drift_kick_no_forces_witness:
  "length (ens_v ((Ensemble_init 2)\<lparr>ens_x := [Vec3 1 2 3, Vec3 0 0 0], ens_v := [Vec3 1 0 0, Vec3 0 2 0]\<rparr>)) =
   length (ens_x ((Ensemble_init 2)\<lparr>ens_x := [Vec3 1 2 3, Vec3 0 0 0], ens_v := [Vec3 1 0 0, Vec3 0 2 0]\<rparr>)) \<and>
   drift_kick 3 [] ([], (Ensemble_init 2)\<lparr>ens_x := [Vec3 1 2 3, Vec3 0 0 0], ens_v := [Vec3 1 0 0, Vec3 0 2 0]\<rparr>) =
     (None, (Ensemble_init 2)\<lparr>ens_x := [Vec3 4 2 3, Vec3 0 6 0], ens_v := [Vec3 1 0 0, Vec3 0 2 0]\<rparr>)"
  using drift_kick_no_forces[of "(Ensemble_init 2)\<lparr>ens_x := [Vec3 1 2 3, Vec3 0 0 0], ens_v := [Vec3 1 0 0, Vec3 0 2 0]\<rparr>" 3 "[]"]
  by (simp add: Ensemble_init_def)

text \<open>
  Claim C1. The ensemble has the mass \<open>m\<close>, not zero, in \<open>ensemble_properties['mass']\<close>,
  and the single force returns the vector \<open>F\<close> for every particle. Then one
  \<open>drift_kick\<close> raises nothing and leaves every particle with
  \<open>v' = v + (dt / m) * F\<close> and \<open>x' = x + dt * v + 0.5 * (dt\<^sup>2 / m) * F\<close>.
\<close>

theorem drift_kick_uniform_force:
  assumes "ensemble_properties e ''mass'' = Some (scalar m)" and "m \<noteq> 0"
    and "length (ens_v e) = length (ens_x e)"
    and "\<forall>he. force he = replicate (get_num_ptcls (snd he)) F"
  shows "drift_kick dt [force] (h, e) =
           (None, e\<lparr>ens_x := map2 (\<lambda>xi vi. vadd (vadd xi (smul dt vi)) (smul (0.5 * (dt\<^sup>2 / m)) F))
                                (ens_x e) (ens_v e),
                     ens_v := map (\<lambda>vi. vadd vi (smul (dt / m) F)) (ens_v e)\<rparr>)"
proof -
  let ?N = "length (ens_x e)"
  let ?x1 = "map2 (\<lambda>xi vi. vadd xi (smul (0.5 * dt) vi)) (ens_x e) (ens_v e)"
  let ?e1 = "e\<lparr>ens_x := ?x1\<rparr>"
  have f: "force (h, ?e1) = replicate ?N F"
    using assms(3,4) by (simp add: get_num_ptcls_def)
  have sf: "sum_forces [force] (h, ?e1) (replicate (length (ens_v ?e1)) vzero) = Inr (replicate ?N F)"
    using assms(3) f
    by (simp add: iadd_rows_same map2_vadd_replicate vadd_vzero)
  have lm: "lookup_mass (h, ?e1) = Inr (scalar m)"
    using assms(1) by (simp add: lookup_mass_def)
  have kt: "kick_term dt (scalar m) (replicate ?N F) = Inr (replicate ?N (smul (dt / m) F))"
    using assms(2) by (simp add: kick_term_def scalar_def)
  have v1: "map2 vadd (ens_v e) (replicate ?N (smul (dt / m) F)) =
        map (\<lambda>vi. vadd vi (smul (dt / m) F)) (ens_v e)"
    using assms(3) by (intro nth_equalityI) simp_all
  have x2: "map2 vadd ?x1 (map (smul (0.5 * dt)) (map (\<lambda>vi. vadd vi (smul (dt / m) F)) (ens_v e))) =
        map2 (\<lambda>xi vi. vadd (vadd xi (smul dt vi)) (smul (0.5 * (dt\<^sup>2 / m)) F)) (ens_x e) (ens_v e)"
    using assms(3) split_step_algebra[OF assms(2), of _ dt _ F]
    by (intro nth_equalityI) simp_all
  show ?thesis
    unfolding drift_kick_def
    using assms(3) sf lm kt v1 x2
    by (simp add: iadd_rows_same map2_vadd_smul del: sum_forces.simps)
qed

theorem drift_kick_uniform_force_witness:
  "ensemble_properties ((Ensemble_init 2)\<lparr>ens_x := [Vec3 0 0 0, Vec3 1 1 1],
       ens_v := [Vec3 1 0 0, Vec3 0 0 0], ensemble_properties := [''mass'' \<mapsto> scalar 2]\<rparr>) ''mass''
     = Some (scalar 2) \<and> (2::real) \<noteq> 0 \<and>
   (\<forall>he. (\<lambda>he. replicate (get_num_ptcls (snd he)) (Vec3 4 0 0)) he =
      replicate (get_num_ptcls (snd he)) (Vec3 4 0 0)) \<and>
   drift_kick 1 [\<lambda>he. replicate (get_num_ptcls (snd he)) (Vec3 4 0 0)]
     ([], (Ensemble_init 2)\<lparr>ens_x := [Vec3 0 0 0, Vec3 1 1 1],
       ens_v := [Vec3 1 0 0, Vec3 0 0 0], ensemble_properties := [''mass'' \<mapsto> scalar 2]\<rparr>) =
     (None, (Ensemble_init 2)\<lparr>ens_x := [Vec3 2 0 0, Vec3 2 1 1],
       ens_v := [Vec3 3 0 0, Vec3 2 0 0], ensemble_properties := [''mass'' \<mapsto> scalar 2]\<rparr>)"
  using drift_kick_uniform_force[of
      "(Ensemble_init 2)\<lparr>ens_x := [Vec3 0 0 0, Vec3 1 1 1],
       ens_v := [Vec3 1 0 0, Vec3 0 0 0], ensemble_properties := [''mass'' \<mapsto> scalar 2]\<rparr>"
      2 "\<lambda>he. replicate (get_num_ptcls (snd he)) (Vec3 4 0 0)" "Vec3 4 0 0" 1 "[]"]
  by (simp add: Ensemble_init_def)

text \<open>
  Claim C3. With at least one force, each returning one row per particle, and after the
  first half drift \<open>positions += 0.5 * dt * velocities\<close>: the kick is made with
  \<open>ensemble_properties['mass']\<close> when that key is there, whatever
  \<open>particle_properties\<close> holds; with \<open>particle_properties['mass']\<close> when only that key
  is there; and when neither is there the step raises \<open>MissingMassError\<close> and leaves the
  ensemble as the first half drift made it.
\<close>

theorem drift_kick_mass_resolution:
  assumes "forces \<noteq> []" and "length (ens_v e) = length (ens_x e)"
    and "e1 = e\<lparr>ens_x := map2 (\<lambda>xi vi. vadd xi (smul (0.5 * dt) vi)) (ens_x e) (ens_v e)\<rparr>"
    and "\<forall>force \<in> set forces. length (force (h, e1)) = get_num_ptcls e"
    and "f = total_force forces (h, e1) (get_num_ptcls e)"
  shows "(\<forall>m. ensemble_properties e ''mass'' = Some m \<longrightarrow>
           drift_kick dt forces (h, e) = kick_and_drift dt m f e1) \<and>
         (\<forall>a. ensemble_properties e ''mass'' = None \<and>
              map_of (particle_properties e) ''mass'' = Some a \<longrightarrow>
           drift_kick dt forces (h, e) = kick_and_drift dt (h ! a) f e1) \<and>
         (ensemble_properties e ''mass'' = None \<and>
          map_of (particle_properties e) ''mass'' = None \<longrightarrow>
           drift_kick dt forces (h, e) = (Some MissingMassError, e1))"
proof -
  have len: "length (ens_v e1) = get_num_ptcls e"
    using assms(2,3) by (simp add: get_num_ptcls_def)
  have sf: "sum_forces forces (h, e1) (replicate (length (ens_v e1)) vzero) = Inr f"
    using sum_forces_total[of forces "(h, e1)" "replicate (length (ens_v e1)) vzero"] assms(4,5) len
    by (simp add: total_force_def)
  have fl: "length f = get_num_ptcls e"
    using foldl_map2_vadd_length[of "map (\<lambda>force. force (h, e1)) forces"
        "replicate (get_num_ptcls e) vzero"] assms(4,5)
    by (simp add: total_force_def)
  have hd: "iadd_rows (ens_x e) (map (smul (0.5 * dt)) (ens_v e)) = Inr (ens_x e1)"
    using assms(2,3) by (simp add: iadd_rows_same map2_vadd_smul)
  have e1': "e\<lparr>ens_x := ens_x e1\<rparr> = e1" using assms(3) by simp
  have lx: "length (ens_x e1) = length (ens_v e1)"
    using assms(2,3) by simp
  have kd: "(case kick_term dt m f of
          Inl err \<Rightarrow> (Some err, e1)
        | Inr w \<Rightarrow>
            (case iadd_rows (ens_v e1) w of
               Inl err \<Rightarrow> (Some err, e1)
             | Inr v1 \<Rightarrow>
                 let e2 = e1\<lparr>ens_v := v1\<rparr> in
                 (case iadd_rows (ens_x e2) (map (smul (0.5 * dt)) (ens_v e2)) of
                    Inl err \<Rightarrow> (Some err, e2)
                  | Inr x2 \<Rightarrow> (None, e2\<lparr>ens_x := x2\<rparr>)))) = kick_and_drift dt m f e1" for m
  proof (cases "kick_term dt m f")
    case (Inl err)
    then show ?thesis by (simp add: kick_and_drift_def)
  next
    case (Inr w)
    have lw: "length w = length (ens_v e1)"
      using kick_term_length[OF Inr] fl len by simp
    show ?thesis
      using Inr lw lx
      by (simp add: kick_and_drift_def iadd_rows_same map2_vadd_smul_zip Let_def)
  qed
  have dk: "drift_kick dt forces (h, e) =
      (case lookup_mass (h, e1) of
         Inl err \<Rightarrow> (Some err, e1)
       | Inr m \<Rightarrow> kick_and_drift dt m f e1)"
    unfolding drift_kick_def
    using assms(1) hd sf kd
    by (simp add: e1' Let_def del: sum_forces.simps split: sum.splits)
  have props: "ensemble_properties e1 = ensemble_properties e"
    "particle_properties e1 = particle_properties e"
    using assms(3) by simp_all
  show ?thesis
    by (simp add: dk lookup_mass_def props)
qed

theorem drift_kick_mass_resolution_witness:
  "drift_kick 1 [\<lambda>he. replicate (get_num_ptcls (snd he)) (Vec3 4 0 0)]
     ([\<lparr>shape = [2], flat = [5, 5]\<rparr>],
      (Ensemble_init 2)\<lparr>ens_v := [Vec3 1 0 0, Vec3 0 0 0],
         ensemble_properties := [''mass'' \<mapsto> scalar 2],
         particle_properties := [(''mass'', 0)]\<rparr>) =
     (None, (Ensemble_init 2)\<lparr>ens_x := [Vec3 2 0 0, Vec3 1 0 0], ens_v := [Vec3 3 0 0, Vec3 2 0 0],
         ensemble_properties := [''mass'' \<mapsto> scalar 2],
         particle_properties := [(''mass'', 0)]\<rparr>) \<and>
   drift_kick 5 [\<lambda>he. replicate (get_num_ptcls (snd he)) (Vec3 4 0 0)]
     ([\<lparr>shape = [2, 1], flat = [5, 10]\<rparr>],
      (Ensemble_init 2)\<lparr>particle_properties := [(''mass'', 0)]\<rparr>) =
     (None, (Ensemble_init 2)\<lparr>ens_x := [Vec3 10 0 0, Vec3 5 0 0], ens_v := [Vec3 4 0 0, Vec3 2 0 0],
         particle_properties := [(''mass'', 0)]\<rparr>) \<and>
   drift_kick 2 [\<lambda>he. replicate (get_num_ptcls (snd he)) (Vec3 4 0 0)]
     ([], (Ensemble_init 2)\<lparr>ens_v := [Vec3 1 0 0, Vec3 0 0 0]\<rparr>) =
     (Some MissingMassError,
      (Ensemble_init 2)\<lparr>ens_x := [Vec3 1 0 0, Vec3 0 0 0], ens_v := [Vec3 1 0 0, Vec3 0 0 0]\<rparr>)"
proof -
  let ?force = "\<lambda>he :: heap \<times> Ensemble. replicate (get_num_ptcls (snd he)) (Vec3 4 0 0)"
  let ?f = "[Vec3 4 0 0, Vec3 4 0 0]"
  have init: "Ensemble_init 2 = \<lparr>ens_x = [Vec3 0 0 0, Vec3 0 0 0], ens_v = [Vec3 0 0 0, Vec3 0 0 0],
      ensemble_properties = Map.empty, particle_properties = []\<rparr>"
    by (simp add: Ensemble_init_def eval_nat_numeral vzero_def)
  have tf: "total_force [?force] (h, e) (get_num_ptcls e') = ?f"
    if "length (ens_x e) = 2" "length (ens_x e') = 2" for h e e'
    using that by (simp add: total_force_def get_num_ptcls_def eval_nat_numeral vzero_def)
  let ?ea = "(Ensemble_init 2)\<lparr>ens_v := [Vec3 1 0 0, Vec3 0 0 0],
         ensemble_properties := [''mass'' \<mapsto> scalar 2],
         particle_properties := [(''mass'', 0)]\<rparr>"
  let ?ea1 = "?ea\<lparr>ens_x := [Vec3 (1/2) 0 0, Vec3 0 0 0]\<rparr>"
  let ?ha = "[\<lparr>shape = [2], flat = [5, 5]\<rparr>]"
  have a: "drift_kick 1 [?force] (?ha, ?ea) = kick_and_drift 1 (scalar 2) ?f ?ea1"
  proof -
    have 1: "[?force] \<noteq> []" by simp
    have 2: "length (ens_v ?ea) = length (ens_x ?ea)" by (simp add: init)
    have 3: "?ea1 = ?ea\<lparr>ens_x := map2 (\<lambda>xi vi. vadd xi (smul (0.5 * 1) vi)) (ens_x ?ea) (ens_v ?ea)\<rparr>"
      by (simp add: init)
    have 4: "\<forall>force \<in> set [?force]. length (force (?ha, ?ea1)) = get_num_ptcls ?ea"
      by (simp add: init get_num_ptcls_def)
    have 5: "?f = total_force [?force] (?ha, ?ea1) (get_num_ptcls ?ea)"
      by (rule tf[symmetric]) (simp_all add: init)
    have 6: "ensemble_properties ?ea ''mass'' = Some (scalar 2)" by simp
    from drift_kick_mass_resolution[OF 1 2 3 4 5] 6 show ?thesis by blast
  qed
  have a': "kick_and_drift 1 (scalar 2) ?f ?ea1 =
     (None, (Ensemble_init 2)\<lparr>ens_x := [Vec3 2 0 0, Vec3 1 0 0], ens_v := [Vec3 3 0 0, Vec3 2 0 0],
         ensemble_properties := [''mass'' \<mapsto> scalar 2],
         particle_properties := [(''mass'', 0)]\<rparr>)"
    by (simp add: init kick_and_drift_def kick_term_def scalar_def)
  let ?eb = "(Ensemble_init 2)\<lparr>particle_properties := [(''mass'', 0)]\<rparr>"
  let ?eb1 = "?eb\<lparr>ens_x := [Vec3 0 0 0, Vec3 0 0 0]\<rparr>"
  let ?hb = "[\<lparr>shape = [2, 1], flat = [5, 10]\<rparr>]"
  have b: "drift_kick 5 [?force] (?hb, ?eb) = kick_and_drift 5 (?hb ! 0) ?f ?eb1"
  proof -
    have 1: "[?force] \<noteq> []" by simp
    have 2: "length (ens_v ?eb) = length (ens_x ?eb)" by (simp add: init)
    have 3: "?eb1 = ?eb\<lparr>ens_x := map2 (\<lambda>xi vi. vadd xi (smul (0.5 * 5) vi)) (ens_x ?eb) (ens_v ?eb)\<rparr>"
      by (simp add: init)
    have 4: "\<forall>force \<in> set [?force]. length (force (?hb, ?eb1)) = get_num_ptcls ?eb"
      by (simp add: init get_num_ptcls_def)
    have 5: "?f = total_force [?force] (?hb, ?eb1) (get_num_ptcls ?eb)"
      by (rule tf[symmetric]) (simp_all add: init)
    have 6: "ensemble_properties ?eb ''mass'' = None \<and>
        map_of (particle_properties ?eb) ''mass'' = Some 0" by (simp add: init)
    from drift_kick_mass_resolution[OF 1 2 3 4 5] 6 show ?thesis by blast
  qed
  have b': "kick_and_drift 5 (?hb ! 0) ?f ?eb1 =
     (None, (Ensemble_init 2)\<lparr>ens_x := [Vec3 10 0 0, Vec3 5 0 0], ens_v := [Vec3 4 0 0, Vec3 2 0 0],
         particle_properties := [(''mass'', 0)]\<rparr>)"
    by (simp add: init kick_and_drift_def kick_term_def upt_conv_Cons)
  let ?ec = "(Ensemble_init 2)\<lparr>ens_v := [Vec3 1 0 0, Vec3 0 0 0]\<rparr>"
  let ?ec1 = "?ec\<lparr>ens_x := [Vec3 1 0 0, Vec3 0 0 0]\<rparr>"
  have c: "drift_kick 2 [?force] ([], ?ec) = (Some MissingMassError, ?ec1)"
  proof -
    have 1: "[?force] \<noteq> []" by simp
    have 2: "length (ens_v ?ec) = length (ens_x ?ec)" by (simp add: init)
    have 3: "?ec1 = ?ec\<lparr>ens_x := map2 (\<lambda>xi vi. vadd xi (smul (0.5 * 2) vi)) (ens_x ?ec) (ens_v ?ec)\<rparr>"
      by (simp add: init)
    have 4: "\<forall>force \<in> set [?force]. length (force ([], ?ec1)) = get_num_ptcls ?ec"
      by (simp add: init get_num_ptcls_def)
    have 5: "?f = total_force [?force] ([], ?ec1) (get_num_ptcls ?ec)"
      by (rule tf[symmetric]) (simp_all add: init)
    have 6: "ensemble_properties ?ec ''mass'' = None \<and>
        map_of (particle_properties ?ec) ''mass'' = None" by (simp add: init)
    from drift_kick_mass_resolution[OF 1 2 3 4 5] 6 show ?thesis by blast
  qed
  show ?thesis
    using a a' b b' c by (simp add: init)
qed

section \<open>Properties of the injection driver\<close>

lemma upt_Suc_add_Cons: "[i..<Suc (i + n)] = i # [Suc i..<Suc (i + n)]"
  by (rule upt_conv_Cons) simp

lemma count_loop_nums:
  "fst (count_loop dt srcs i nums tot tr s) = nums @ counts_once dt srcs s"
  by (induction srcs arbitrary: i nums tot tr s) (simp_all add: split_beta Let_def)

lemma count_loop_tot:
  "fst (snd (count_loop dt srcs i nums tot tr s)) = tot + sum_list (counts_once dt srcs s)"
  by (induction srcs arbitrary: i nums tot tr s) (simp_all add: split_beta Let_def)

lemma count_loop_trace:
  "fst (snd (snd (count_loop dt srcs i nums tot tr s))) =
     tr @ map (\<lambda>j. CallNumPtclsProduced j dt) [i..<i + length srcs]"
proof (induction srcs arbitrary: i nums tot tr s)
  case Nil
  then show ?case by simp
next
  case (Cons src srcs)
  show ?case
    using Cons by (simp add: split_beta Let_def upt_Suc_add_Cons del: upt_Suc)
qed

lemma counts_once_length: "length (counts_once dt srcs s) = length srcs"
  by (induction srcs arbitrary: s) (simp_all add: split_beta Let_def)

lemma insert_loop_trace:
  assumes "i + length srcs \<le> length nums" and "start = N + sum_list (take i nums)"
  shows "fst (snd (insert_loop dt (enumerate i srcs) nums start he tr s)) =
     tr @ map (\<lambda>j. CallProducePtcls j dt (N + sum_list (take j nums))
                      (N + sum_list (take (Suc j) nums))) [i..<i + length srcs]"
  using assms
proof (induction srcs arbitrary: i start he tr s)
  case Nil
  then show ?case by simp
next
  case (Cons src srcs)
  have il: "i < length nums" using Cons.prems(1) by simp
  have nxt: "start + nums ! i = N + sum_list (take (Suc i) nums)"
    using Cons.prems(2) il by (simp add: take_Suc_conv_app_nth)
  have len: "Suc i + length srcs \<le> length nums" using Cons.prems(1) by simp
  obtain he' s' where call: "src_produce_ptcls src dt start (start + nums ! i) he s = (he', s')"
    by (cases "src_produce_ptcls src dt start (start + nums ! i) he s")
  have "fst (snd (insert_loop dt (enumerate i (src # srcs)) nums start he tr s)) =
        fst (snd (insert_loop dt (enumerate (Suc i) srcs) nums (start + nums ! i) he'
          (tr @ [CallProducePtcls i dt start (start + nums ! i)]) s'))"
    by (simp add: call)
  also have "\<dots> = (tr @ [CallProducePtcls i dt start (start + nums ! i)]) @
      map (\<lambda>j. CallProducePtcls j dt (N + sum_list (take j nums))
                      (N + sum_list (take (Suc j) nums))) [Suc i..<Suc i + length srcs]"
    by (rule Cons.IH[OF len nxt])
  finally show ?case
    using nxt Cons.prems(2) by (simp add: upt_Suc_add_Cons del: upt_Suc)
qed

lemma sum_list_take_mono:
  fixes xs :: "nat list"
  assumes "i \<le> j"
  shows "sum_list (take i xs) \<le> sum_list (take j xs)"
proof -
  have "take j xs = take i xs @ drop i (take j xs)"
    using assms by (metis append_take_drop_id min.absorb1 take_take)
  then have "sum_list (take j xs) = sum_list (take i xs) + sum_list (drop i (take j xs))"
    by (metis sum_list_append)
  then show ?thesis by simp
qed

text \<open>
  Claim C4. The calls \<open>produce_ptcls\<close> makes are, in this order: one
  \<open>num_ptcls_produced(dt)\<close> to each source in list order; one \<open>resize\<close> to the old
  number of particles plus the sum of the counts returned; one \<open>produce_ptcls\<close> to each
  source in list order, the range of source \<open>i\<close> starting at the old number of
  particles plus the counts of the sources before it and having the length of its own
  count. So the ranges start at the old number of particles, each begins where the one
  before ends, and no two overlap. Sources returning 3 and 5 on an ensemble of one
  particle give 9 particles, the rows 1 to 3 written by the first source and the rows 4
  to 8 by the second.
\<close>

theorem produce_ptcls_calls:
  "fst (snd (produce_ptcls dt sources he s)) =
     map (\<lambda>i. CallNumPtclsProduced i dt) [0..<length sources] @
     [CallResize (get_num_ptcls (snd he) + sum_list (counts_once dt sources s))] @
     map (\<lambda>i. CallProducePtcls i dt
            (get_num_ptcls (snd he) + sum_list (take i (counts_once dt sources s)))
            (get_num_ptcls (snd he) + sum_list (take (Suc i) (counts_once dt sources s))))
       [0..<length sources] \<and>
   length (counts_once dt sources s) = length sources \<and>
   (\<forall>i j. i < j \<and> j < length sources \<longrightarrow>
      get_num_ptcls (snd he) + sum_list (take (Suc i) (counts_once dt sources s))
        \<le> get_num_ptcls (snd he) + sum_list (take j (counts_once dt sources s))) \<and>
   (\<forall>i < length sources.
      get_num_ptcls (snd he) + sum_list (take (Suc i) (counts_once dt sources s)) =
      get_num_ptcls (snd he) + sum_list (take i (counts_once dt sources s))
        + counts_once dt sources s ! i)"
proof -
  let ?cl = "count_loop dt sources 0 [] 0 [] s"
  let ?counts = "counts_once dt sources s"
  let ?N = "get_num_ptcls (snd he)"
  have nums: "fst ?cl = ?counts" by (simp add: count_loop_nums)
  have tot: "fst (snd ?cl) = sum_list ?counts" by (simp add: count_loop_tot)
  have tr: "fst (snd (snd ?cl)) = map (\<lambda>j. CallNumPtclsProduced j dt) [0..<length sources]"
    by (simp add: count_loop_trace)
  have pp: "produce_ptcls dt sources he s =
      insert_loop dt (enumerate 0 sources) (fst ?cl) ?N (resize (?N + fst (snd ?cl)) he)
        (fst (snd (snd ?cl)) @ [CallResize (?N + fst (snd ?cl))]) (snd (snd (snd ?cl)))"
    by (simp add: produce_ptcls_def split_beta Let_def)
  have trace: "fst (snd (produce_ptcls dt sources he s)) =
     (map (\<lambda>i. CallNumPtclsProduced i dt) [0..<length sources] @
      [CallResize (?N + sum_list ?counts)]) @
     map (\<lambda>i. CallProducePtcls i dt (?N + sum_list (take i ?counts))
            (?N + sum_list (take (Suc i) ?counts))) [0..<0 + length sources]"
    unfolding pp nums tot tr
    by (rule insert_loop_trace) (simp_all add: counts_once_length)
  have disj: "\<forall>i j. i < j \<and> j < length sources \<longrightarrow>
      ?N + sum_list (take (Suc i) ?counts) \<le> ?N + sum_list (take j ?counts)"
    by (simp add: sum_list_take_mono)
  have contig: "\<forall>i < length sources.
      ?N + sum_list (take (Suc i) ?counts) = ?N + sum_list (take i ?counts) + ?counts ! i"
    by (simp add: take_Suc_conv_app_nth counts_once_length)
  show ?thesis
    using trace disj contig by (simp add: counts_once_length)
qed


lemma example_final:
  "ens_x (snd (fst (produce_ptcls 1
       [marking_source 0 3 (Vec3 1 1 1), marking_source 1 5 (Vec3 2 2 2)]
       ([], Ensemble_init 1) 0))) =
     [Vec3 0 0 0, Vec3 1 1 1, Vec3 1 1 1, Vec3 1 1 1,
      Vec3 2 2 2, Vec3 2 2 2, Vec3 2 2 2, Vec3 2 2 2, Vec3 2 2 2]"
  by (simp add: produce_ptcls_def marking_source_def Ensemble_init_def get_num_ptcls_def
      resize_def rows_resize_def vzero_def enumerate_eq_zip upt_conv_Cons eval_nat_numeral
      del: upt_Suc)

theorem produce_ptcls_calls_witness:
  "(0::nat) < 1 \<and> 1 < length [marking_source 0 3 (Vec3 1 1 1), marking_source 1 5 (Vec3 2 2 2)] \<and>
   counts_once 1 [marking_source 0 3 (Vec3 1 1 1), marking_source 1 5 (Vec3 2 2 2)] 0 = [3, 5] \<and>
   fst (snd (produce_ptcls 1 [marking_source 0 3 (Vec3 1 1 1), marking_source 1 5 (Vec3 2 2 2)]
       ([], Ensemble_init 1) 0)) =
     [CallNumPtclsProduced 0 1, CallNumPtclsProduced 1 1, CallResize 9,
      CallProducePtcls 0 1 1 4, CallProducePtcls 1 1 4 9] \<and>
   ens_x (snd (fst (produce_ptcls 1
       [marking_source 0 3 (Vec3 1 1 1), marking_source 1 5 (Vec3 2 2 2)]
       ([], Ensemble_init 1) 0))) =
     [Vec3 0 0 0, Vec3 1 1 1, Vec3 1 1 1, Vec3 1 1 1,
      Vec3 2 2 2, Vec3 2 2 2, Vec3 2 2 2, Vec3 2 2 2, Vec3 2 2 2]"
proof -
  let ?srcs = "[marking_source 0 3 (Vec3 1 1 1), marking_source 1 5 (Vec3 2 2 2)]"
  have counts: "counts_once 1 ?srcs 0 = [3, 5]"
    by (simp add: marking_source_def)
  have n: "get_num_ptcls (snd (([], Ensemble_init 1) :: heap \<times> Ensemble)) = 1"
    by (simp add: get_num_ptcls_def Ensemble_init_def)
  have idx: "[0..<length ?srcs] = [0, 1]"
    by (simp add: upt_conv_Cons)
  from produce_ptcls_calls[of 1 ?srcs "([], Ensemble_init 1)" 0]
  have "fst (snd (produce_ptcls 1 ?srcs ([], Ensemble_init 1) 0)) =
     [CallNumPtclsProduced 0 1, CallNumPtclsProduced 1 1, CallResize 9,
      CallProducePtcls 0 1 1 4, CallProducePtcls 1 1 4 9]"
    unfolding counts n idx by (simp add: eval_nat_numeral)
  then show ?thesis
    using counts example_final by simp
qed

end
